theory Spec2Isabelle
  imports Main
begin

section \<open>MillicastPublish: the publish-side sequencing layer\<close>

text \<open>
  The class \<^verbatim>\<open>MillicastPublish\<close> (MillicastPublish.js) sequences calls into two
  collaborators of the same package, \<^verbatim>\<open>MillicastWebRTC\<close> and \<^verbatim>\<open>MillicastSignaling\<close>.
  The publisher's own code is embedded below, method by method. The collaborators are
  parameters of the embedding: every method of theirs that the publisher calls is a field
  of the record \<open>env\<close>, acting on an opaque collaborator state \<open>'c\<close>.

  Conventions of the embedding:
  \<^item> objects are references (natural numbers) handed out by an allocation counter, so
    that \<^verbatim>\<open>new\<close> yields an object distinct from every object allocated before;
  \<^item> a thrown \<^verbatim>\<open>Error\<close> or a rejected promise is the value \<open>Inl e\<close>; a field
    assignment made before the throw stays in the returned publisher, as it does in
    JavaScript;
  \<^item> the awaited (promise-returning) collaborator methods may reject; constructors,
    the status getter, the SDP text rewriter, the two close methods and \<^verbatim>\<open>reemit\<close>
    are synchronous calls that return;
  \<^item> every collaborator call is appended to a trace together with its arguments and its
    result, in program order; the calls to the logger are not part of the model;
  \<^item> the calls of one method run to completion in sequence (one thread of control).
\<close>

subsection \<open>JavaScript values\<close>

datatype jsval =
    JUndefined
  | JNull
  | JBoolean bool
  | JNumber int
  | JNaN
  | JString string
  | JObject nat

text \<open>\<^verbatim>\<open>!v\<close> is \<open>\<not> truthy v\<close>.\<close>

fun truthy :: "jsval \<Rightarrow> bool" where
  "truthy JUndefined = False"
| "truthy JNull = False"
| "truthy (JBoolean b) = b"
| "truthy (JNumber n) = (n \<noteq> 0)"
| "truthy JNaN = False"
| "truthy (JString s) = (s \<noteq> [])"
| "truthy (JObject r) = True"

text \<open>An array read \<^verbatim>\<open>xs[i]\<close>: \<^verbatim>\<open>undefined\<close> (here \<open>None\<close>) out of range.\<close>

definition js_index :: "'a list \<Rightarrow> nat \<Rightarrow> 'a option" where
  "js_index xs i = (if i < length xs then Some (xs ! i) else None)"

text \<open>A string, or \<^verbatim>\<open>undefined\<close>, inside a template literal \<^verbatim>\<open>`${v}`\<close>.\<close>

definition template_text :: "string option \<Rightarrow> string" where
  "template_text v = (case v of None \<Rightarrow> ''undefined'' | Some s \<Rightarrow> s)"

subsection \<open>Data\<close>

type_synonym ref = nat

datatype error = Error string

text \<open>
  \<^verbatim>\<open>MillicastDirectorResponse\<close>, the connection path, as far as \<^verbatim>\<open>broadcast\<close>
  reads it.
\<close>

record directorResponse =
  urls :: "string list"
  jwt :: string

text \<open>
  The \<^verbatim>\<open>options\<close> object of \<^verbatim>\<open>broadcast\<close>, typed by its JSDoc. \<open>None\<close> is an
  absent (\<^verbatim>\<open>undefined\<close>) or \<^verbatim>\<open>null\<close> property. The bandwidth is a whole number of
  kbps; an absent bandwidth compares as \<^verbatim>\<open>undefined > 0\<close>, which is false.
\<close>

record options =
  publisherData :: "directorResponse option"
  mediaStream :: "ref option"
  bandwidth :: "int option"
  disableVideo :: jsval
  disableAudio :: jsval
  codec :: "string option"
  simulcast :: "bool option"
  scalabilityMode :: "string option"

text \<open>The argument object of \<^verbatim>\<open>getRTCLocalSDP\<close>: mediaStream, simulcast, codec, scalabilityMode.\<close>

datatype localSDPOptions =
  LocalSDPOptions ref "bool option" "string option" "string option"

text \<open>The fields of a \<^verbatim>\<open>MillicastPublish\<close> instance.\<close>

record publisher =
  webRTCPeer :: ref
  millicastSignaling :: "ref option"
  streamName :: jsval

text \<open>One entry per collaborator call: receiver, arguments, result.\<close>

datatype event =
    NewMillicastWebRTC ref
  | NewMillicastSignaling ref jsval string
  | GetRTCPeerStatus ref "string option"
  | GetRTCPeer ref "error + unit"
  | Reemit ref "string list"
  | SetRTCOfferOptions ref bool bool
  | GetRTCLocalSDP ref localSDPOptions "error + string"
  | Publish ref string "string option" "error + string"
  | UpdateBandwidthRestriction ref string "int option" string
  | SetRTCRemoteSDP ref string "error + unit"
  | CloseRTCPeer ref
  | Close ref

record 'c world =
  heap_next :: ref
  collab :: 'c
  trace :: "event list"


subsection \<open>The collaborators, as parameters\<close>

text \<open>
  \<^verbatim>\<open>MillicastWebRTC.js\<close>, \<^verbatim>\<open>MillicastSignaling.js\<close> and the package \<^verbatim>\<open>re-emitter\<close>
  are not part of the code under study. Each of their entry points used by the publisher
  is a field here; the first argument is the receiver. The two string constants
  \<^verbatim>\<open>MillicastVideoCodec.H264\<close> and \<^verbatim>\<open>webRTCEvents.connectionStateChange\<close> come
  from those modules too.
\<close>

record 'c env =
  videoCodec_H264 :: string
  connectionStateChange :: string
  init_MillicastWebRTC :: "ref \<Rightarrow> 'c \<Rightarrow> 'c"
  init_MillicastSignaling :: "ref \<Rightarrow> jsval \<Rightarrow> string \<Rightarrow> 'c \<Rightarrow> 'c"
  getRTCPeerStatus :: "ref \<Rightarrow> 'c \<Rightarrow> string option \<times> 'c"
  getRTCPeer :: "ref \<Rightarrow> 'c \<Rightarrow> (error + unit) \<times> 'c"
  reemit :: "ref \<Rightarrow> string list \<Rightarrow> 'c \<Rightarrow> 'c"
  assign_RTCOfferOptions :: "ref \<Rightarrow> bool \<Rightarrow> bool \<Rightarrow> 'c \<Rightarrow> 'c"
  getRTCLocalSDP :: "ref \<Rightarrow> localSDPOptions \<Rightarrow> 'c \<Rightarrow> (error + string) \<times> 'c"
  publish :: "ref \<Rightarrow> string \<Rightarrow> string option \<Rightarrow> 'c \<Rightarrow> (error + string) \<times> 'c"
  updateBandwidthRestriction :: "ref \<Rightarrow> string \<Rightarrow> int option \<Rightarrow> 'c \<Rightarrow> string \<times> 'c"
  setRTCRemoteSDP :: "ref \<Rightarrow> string \<Rightarrow> 'c \<Rightarrow> (error + unit) \<times> 'c"
  closeRTCPeer :: "ref \<Rightarrow> 'c \<Rightarrow> 'c"
  close :: "ref \<Rightarrow> 'c \<Rightarrow> 'c"

text \<open>A call that returns a value: run it on the collaborator state and log it.\<close>

definition call :: "('c \<Rightarrow> 'a \<times> 'c) \<Rightarrow> ('a \<Rightarrow> event) \<Rightarrow> 'c world \<Rightarrow> 'a \<times> 'c world" where
  "call f ev w =
     (case f (collab w) of
        (r, c') \<Rightarrow> (r, w\<lparr>collab := c', trace := trace w @ [ev r]\<rparr>))"

text \<open>A call or assignment made for its effect only.\<close>

definition effect :: "('c \<Rightarrow> 'c) \<Rightarrow> event \<Rightarrow> 'c world \<Rightarrow> 'c world" where
  "effect f ev w = w\<lparr>collab := f (collab w), trace := trace w @ [ev]\<rparr>"

text \<open>\<^verbatim>\<open>new C(args)\<close>: a fresh reference, then the constructor body.\<close>

definition new_object :: "(ref \<Rightarrow> 'c \<Rightarrow> 'c) \<Rightarrow> (ref \<Rightarrow> event) \<Rightarrow> 'c world \<Rightarrow> ref \<times> 'c world" where
  "new_object init ev w =
     (let r = heap_next w
      in (r, w\<lparr>heap_next := Suc r, collab := init r (collab w), trace := trace w @ [ev r]\<rparr>))"

subsection \<open>The methods of MillicastPublish\<close>


text \<open>\<^verbatim>\<open>isActive ()\<close>: strict equality of the polled status with \<^verbatim>\<open>'connected'\<close>.\<close>

definition isActive :: "'c env \<Rightarrow> publisher \<Rightarrow> 'c world \<Rightarrow> bool \<times> publisher \<times> 'c world" where
  "isActive env this w =
     (case call (getRTCPeerStatus env (webRTCPeer this)) (GetRTCPeerStatus (webRTCPeer this)) w of
        (rtcPeerState, w1) \<Rightarrow> (rtcPeerState = Some ''connected'', this, w1))"

text \<open>\<^verbatim>\<open>stop ()\<close>: \<^verbatim>\<open>this.millicastSignaling?.close()\<close> calls nothing on \<^verbatim>\<open>null\<close>.\<close>

definition stop :: "'c env \<Rightarrow> publisher \<Rightarrow> 'c world \<Rightarrow> (error + unit) \<times> publisher \<times> 'c world" where
  "stop env this w =
     (let w1 = effect (closeRTCPeer env (webRTCPeer this)) (CloseRTCPeer (webRTCPeer this)) w;
          w2 = (case millicastSignaling this of
                  None \<Rightarrow> w1
                | Some sg \<Rightarrow> effect (close env sg) (Close sg) w1)
      in (Inr (), this\<lparr>millicastSignaling := None\<rparr>, w2))"

text \<open>The default value of the parameter \<^verbatim>\<open>options\<close>.\<close>

definition default_options :: "'c env \<Rightarrow> options" where
  "default_options env =
     \<lparr>publisherData = None, mediaStream = None, bandwidth = Some 0,
      disableVideo = JBoolean False, disableAudio = JBoolean False,
      codec = Some (videoCodec_H264 env), simulcast = Some False, scalabilityMode = None\<rparr>"

text \<open>A default parameter value stands in for a missing argument.\<close>

definition supplied_options :: "'c env \<Rightarrow> options option \<Rightarrow> options" where
  "supplied_options env options_arg =
     (case options_arg of None \<Rightarrow> default_options env | Some given \<Rightarrow> given)"

text \<open>\<^verbatim>\<open>options.bandwidth > 0\<close>, where \<^verbatim>\<open>undefined > 0\<close> is false.\<close>

definition greater_zero :: "int option \<Rightarrow> bool" where
  "greater_zero b = (case b of None \<Rightarrow> False | Some n \<Rightarrow> n > 0)"

text \<open>The URL handed to the \<^verbatim>\<open>MillicastSignaling\<close> constructor.\<close>

definition signaling_url :: "directorResponse \<Rightarrow> string" where
  "signaling_url pd = template_text (js_index (urls pd) 0) @ ''?token='' @ jwt pd"

text \<open>
  The part of \<^verbatim>\<open>broadcast\<close> after \<^verbatim>\<open>publish\<close> has resolved with \<open>remoteSdp\<close>
  (lines 122 to 127).
\<close>

definition broadcast_answer ::
    "'c env \<Rightarrow> options \<Rightarrow> publisher \<Rightarrow> string \<Rightarrow> 'c world \<Rightarrow> (error + unit) \<times> publisher \<times> 'c world" where
  "broadcast_answer env opts this remoteSdp w =
     (case (if \<not> truthy (disableVideo opts) \<and> greater_zero (bandwidth opts)
            then call (updateBandwidthRestriction env (webRTCPeer this) remoteSdp (bandwidth opts))
                      (UpdateBandwidthRestriction (webRTCPeer this) remoteSdp (bandwidth opts)) w
            else (remoteSdp, w)) of
        (remoteSdp', w1) \<Rightarrow>
          (case call (setRTCRemoteSDP env (webRTCPeer this) remoteSdp')
                     (SetRTCRemoteSDP (webRTCPeer this) remoteSdp') w1 of
             (Inl e, w2) \<Rightarrow> (Inl e, this, w2)
           | (Inr u, w2) \<Rightarrow> (Inr (), this, w2)))"

text \<open>
  The part of \<^verbatim>\<open>broadcast\<close> after the three guards (lines 107 to 120), for the
  connection path \<open>pd\<close> and the media stream \<open>ms\<close>.
\<close>

definition broadcast_negotiate ::
    "'c env \<Rightarrow> options \<Rightarrow> directorResponse \<Rightarrow> ref \<Rightarrow> publisher \<Rightarrow> 'c world
       \<Rightarrow> (error + unit) \<times> publisher \<times> 'c world" where
  "broadcast_negotiate env opts pd ms this0 w0 =
     (case new_object (\<lambda>r. init_MillicastSignaling env r (streamName this0) (signaling_url pd))
                      (\<lambda>r. NewMillicastSignaling r (streamName this0) (signaling_url pd)) w0 of
        (sg, w1) \<Rightarrow>
          (let this = this0\<lparr>millicastSignaling := Some sg\<rparr>;
               peer = webRTCPeer this
           in case call (getRTCPeer env peer) (GetRTCPeer peer) w1 of
                (Inl e, w2) \<Rightarrow> (Inl e, this, w2)
              | (Inr u, w2) \<Rightarrow>
                  (let w3 = effect (reemit env peer [connectionStateChange env])
                                   (Reemit peer [connectionStateChange env]) w2;
                       w4 = effect (assign_RTCOfferOptions env peer
                                      (\<not> truthy (disableVideo opts)) (\<not> truthy (disableAudio opts)))
                                   (SetRTCOfferOptions peer
                                      (\<not> truthy (disableVideo opts)) (\<not> truthy (disableAudio opts))) w3;
                       args = LocalSDPOptions ms (simulcast opts) (codec opts) (scalabilityMode opts)
                   in case call (getRTCLocalSDP env peer args) (GetRTCLocalSDP peer args) w4 of
                        (Inl e, w5) \<Rightarrow> (Inl e, this, w5)
                      | (Inr localSdp, w5) \<Rightarrow>
                          (case call (publish env sg localSdp (codec opts))
                                     (Publish sg localSdp (codec opts)) w5 of
                             (Inl e, w6) \<Rightarrow> (Inl e, this, w6)
                           | (Inr remoteSdp, w6) \<Rightarrow> broadcast_answer env opts this remoteSdp w6))))"

text \<open>\<^verbatim>\<open>async broadcast (options = {...})\<close>; \<open>None\<close> is a call without argument.\<close>

definition broadcast ::
    "'c env \<Rightarrow> options option \<Rightarrow> publisher \<Rightarrow> 'c world \<Rightarrow> (error + unit) \<times> publisher \<times> 'c world" where
  "broadcast env options_arg this w =
     (let opts = supplied_options env options_arg
      in case publisherData opts of
           None \<Rightarrow> (Inl (Error ''Publisher data required''), this, w)
         | Some pd \<Rightarrow>
             (case mediaStream opts of
                None \<Rightarrow> (Inl (Error ''MediaStream required''), this, w)
              | Some ms \<Rightarrow>
                  (case isActive env this w of
                     (active, this1, w1) \<Rightarrow>
                       if active
                       then (Inl (Error ''Broadcast currently working''), this1, w1)
                       else broadcast_negotiate env opts pd ms this1 w1)))"

subsection \<open>Reading a trace\<close>

text \<open>The calls a method has added to the trace, between the worlds before and after.\<close>

definition calls_between :: "'c world \<Rightarrow> 'c world \<Rightarrow> event list" where
  "calls_between w w' = drop (length (trace w)) (trace w')"


text \<open>
  What a trace entry stands for: the logged call, made with the logged receiver and
  arguments on a collaborator state. The outcome is the state the call leaves, or
  \<open>None\<close> when the call does not return the logged result.
\<close>

fun perform :: "'c env \<Rightarrow> event \<Rightarrow> 'c \<Rightarrow> 'c option" where
  "perform env (NewMillicastWebRTC r) c = Some (init_MillicastWebRTC env r c)"
| "perform env (NewMillicastSignaling r n u) c = Some (init_MillicastSignaling env r n u c)"
| "perform env (GetRTCPeerStatus r st) c =
     (if fst (getRTCPeerStatus env r c) = st then Some (snd (getRTCPeerStatus env r c)) else None)"
| "perform env (GetRTCPeer r out) c =
     (if fst (getRTCPeer env r c) = out then Some (snd (getRTCPeer env r c)) else None)"
| "perform env (Reemit r names) c = Some (reemit env r names c)"
| "perform env (SetRTCOfferOptions r v a) c = Some (assign_RTCOfferOptions env r v a c)"
| "perform env (GetRTCLocalSDP r args out) c =
     (if fst (getRTCLocalSDP env r args c) = out
      then Some (snd (getRTCLocalSDP env r args c)) else None)"
| "perform env (Publish r sdp cd out) c =
     (if fst (publish env r sdp cd c) = out then Some (snd (publish env r sdp cd c)) else None)"
| "perform env (UpdateBandwidthRestriction r sdp bw out) c =
     (if fst (updateBandwidthRestriction env r sdp bw c) = out
      then Some (snd (updateBandwidthRestriction env r sdp bw c)) else None)"
| "perform env (SetRTCRemoteSDP r sdp out) c =
     (if fst (setRTCRemoteSDP env r sdp c) = out
      then Some (snd (setRTCRemoteSDP env r sdp c)) else None)"
| "perform env (CloseRTCPeer r) c = Some (closeRTCPeer env r c)"
| "perform env (Close r) c = Some (close env r c)"

text \<open>The logged calls of a trace, made one after the other.\<close>

fun replay :: "'c env \<Rightarrow> event list \<Rightarrow> 'c \<Rightarrow> 'c option" where
  "replay env [] c = Some c"
| "replay env (e # es) c =
     (case perform env e c of None \<Rightarrow> None | Some c' \<Rightarrow> replay env es c')"

text \<open>The calls from the creation of the signaling object to the offer options.\<close>

abbreviation (input) opening_calls ::
    "'c env \<Rightarrow> options \<Rightarrow> directorResponse \<Rightarrow> publisher \<Rightarrow> ref \<Rightarrow> event list" where
  "opening_calls env opts pd this sg \<equiv>
     [NewMillicastSignaling sg (streamName this) (signaling_url pd),
      GetRTCPeer (webRTCPeer this) (Inr ()),
      Reemit (webRTCPeer this) [connectionStateChange env],
      SetRTCOfferOptions (webRTCPeer this)
        (\<not> truthy (disableVideo opts)) (\<not> truthy (disableAudio opts))]"

subsection \<open>A concrete pair of collaborators\<close>

text \<open>
  Test doubles in the manner of the test suite's mocks, used to run the methods on
  concrete inputs. The collaborator state is the connection state of the one peer:
  absent until \<^verbatim>\<open>getRTCPeer\<close>, \<^verbatim>\<open>'connected'\<close> once the remote description is
  set, absent again after \<^verbatim>\<open>closeRTCPeer\<close>.
\<close>

definition stub_env :: "string option env" where
  "stub_env =
     \<lparr>videoCodec_H264 = ''h264'',
      connectionStateChange = ''connectionStateChange'',
      init_MillicastWebRTC = (\<lambda>r c. None),
      init_MillicastSignaling = (\<lambda>r n u c. c),
      getRTCPeerStatus = (\<lambda>r c. (c, c)),
      getRTCPeer = (\<lambda>r c. (Inr (), Some ''new'')),
      reemit = (\<lambda>r names c. c),
      assign_RTCOfferOptions = (\<lambda>r v a c. c),
      getRTCLocalSDP = (\<lambda>r args c. (Inr ''offer'', c)),
      publish = (\<lambda>r sdp cd c. (Inr (''answer:'' @ sdp), c)),
      updateBandwidthRestriction = (\<lambda>r sdp bw c. (sdp @ '';b=AS'', c)),
      setRTCRemoteSDP = (\<lambda>r sdp c. (Inr (), Some ''connected'')),
      closeRTCPeer = (\<lambda>r c. None),
      close = (\<lambda>r c. c)\<rparr>"

text \<open>
  A publisher fresh from its constructor, and the same publisher after one broadcast with
  \<open>stub_options\<close> (defined below) has connected its peer.
\<close>

definition idle_publisher :: publisher where
  "idle_publisher = \<lparr>webRTCPeer = 0, millicastSignaling = None, streamName = JString ''s''\<rparr>"

definition idle_world :: "string option world" where
  "idle_world = \<lparr>heap_next = 1, collab = None, trace = [NewMillicastWebRTC 0]\<rparr>"

definition live_publisher :: publisher where
  "live_publisher = \<lparr>webRTCPeer = 0, millicastSignaling = Some 1, streamName = JString ''s''\<rparr>"

definition live_world :: "string option world" where
  "live_world =
     \<lparr>heap_next = 2, collab = Some ''connected'',
      trace =
        [NewMillicastWebRTC 0,
         GetRTCPeerStatus 0 None,
         NewMillicastSignaling 1 (JString ''s'') ''wss://a?token=tok'',
         GetRTCPeer 0 (Inr ()),
         Reemit 0 [''connectionStateChange''],
         SetRTCOfferOptions 0 True True,
         GetRTCLocalSDP 0 (LocalSDPOptions 7 (Some False) (Some ''h264'') None) (Inr ''offer''),
         Publish 1 ''offer'' (Some ''h264'') (Inr ''answer:offer''),
         UpdateBandwidthRestriction 0 ''answer:offer'' (Some 1000) ''answer:offer;b=AS'',
         SetRTCRemoteSDP 0 ''answer:offer;b=AS'' (Inr ())]\<rparr>"

definition stub_options :: options where
  "stub_options =
     \<lparr>publisherData = Some \<lparr>urls = [''wss://a'', ''wss://b''], jwt = ''tok''\<rparr>,
      mediaStream = Some 7, bandwidth = Some 1000,
      disableVideo = JBoolean False, disableAudio = JBoolean False,
      codec = Some ''h264'', simulcast = Some False, scalabilityMode = None\<rparr>"

section \<open>Properties\<close>

subsection \<open>Collaborator calls and the trace\<close>

lemma call_result:
  assumes "call f ev w = (r, w')"
  shows "trace w' = trace w @ [ev r]"
  using assms by (auto simp: call_def split: prod.splits)

lemma effect_fields [simp]:
  "trace (effect f ev w) = trace w @ [ev]"
  "heap_next (effect f ev w) = heap_next w"
  by (simp_all add: effect_def)

lemma new_object_result:
  assumes "new_object init ev w = (r, w')"
  shows "r = heap_next w \<and> trace w' = trace w @ [ev r] \<and> heap_next w' = Suc (heap_next w)"
  using assms by (auto simp: new_object_def Let_def)

lemma calls_between_append [simp]: "trace w' = trace w @ evs \<Longrightarrow> calls_between w w' = evs"
  by (simp add: calls_between_def)

lemma isActive_result:
  assumes "isActive env this w = (active, this1, w1)"
  shows "this1 = this \<and> heap_next w1 = heap_next w \<and>
         (\<exists>st. trace w1 = trace w @ [GetRTCPeerStatus (webRTCPeer this) st] \<and>
               active = (st = Some ''connected'') \<and>
               st = fst (getRTCPeerStatus env (webRTCPeer this) (collab w)))"
  using assms
  by (auto simp: isActive_def call_def split: prod.splits)

subsection \<open>The shapes of a run of broadcast\<close>

lemma broadcast_answer_shape:
  assumes "broadcast_answer env opts this remoteSdp w = (res, this', w')"
  shows "this' = this \<and>
         (if \<not> truthy (disableVideo opts) \<and> greater_zero (bandwidth opts)
          then \<exists>handed. trace w' = trace w @
                 [UpdateBandwidthRestriction (webRTCPeer this) remoteSdp (bandwidth opts) handed,
                  SetRTCRemoteSDP (webRTCPeer this) handed res]
          else trace w' = trace w @ [SetRTCRemoteSDP (webRTCPeer this) remoteSdp res])"
  using assms
  by (auto simp: broadcast_answer_def dest!: call_result split: prod.splits sum.splits if_splits)

lemma broadcast_negotiate_shape:
  assumes "broadcast_negotiate env opts pd ms this w = (res, this', w')"
  shows "this' = this\<lparr>millicastSignaling := Some (heap_next w)\<rparr> \<and>
      ((\<exists>e. res = Inl e \<and> trace w' = trace w @
          [NewMillicastSignaling (heap_next w) (streamName this) (signaling_url pd),
           GetRTCPeer (webRTCPeer this) (Inl e)])
     \<or> (\<exists>e. res = Inl e \<and> trace w' = trace w @ opening_calls env opts pd this (heap_next w) @
          [GetRTCLocalSDP (webRTCPeer this)
             (LocalSDPOptions ms (simulcast opts) (codec opts) (scalabilityMode opts)) (Inl e)])
     \<or> (\<exists>e localSdp. res = Inl e \<and> trace w' = trace w @ opening_calls env opts pd this (heap_next w) @
          [GetRTCLocalSDP (webRTCPeer this)
             (LocalSDPOptions ms (simulcast opts) (codec opts) (scalabilityMode opts)) (Inr localSdp),
           Publish (heap_next w) localSdp (codec opts) (Inl e)])
     \<or> (\<not> truthy (disableVideo opts) \<and> greater_zero (bandwidth opts) \<and>
         (\<exists>localSdp answer handed. trace w' = trace w @ opening_calls env opts pd this (heap_next w) @
          [GetRTCLocalSDP (webRTCPeer this)
             (LocalSDPOptions ms (simulcast opts) (codec opts) (scalabilityMode opts)) (Inr localSdp),
           Publish (heap_next w) localSdp (codec opts) (Inr answer),
           UpdateBandwidthRestriction (webRTCPeer this) answer (bandwidth opts) handed,
           SetRTCRemoteSDP (webRTCPeer this) handed res]))
     \<or> (\<not> (\<not> truthy (disableVideo opts) \<and> greater_zero (bandwidth opts)) \<and>
         (\<exists>localSdp answer. trace w' = trace w @ opening_calls env opts pd this (heap_next w) @
          [GetRTCLocalSDP (webRTCPeer this)
             (LocalSDPOptions ms (simulcast opts) (codec opts) (scalabilityMode opts)) (Inr localSdp),
           Publish (heap_next w) localSdp (codec opts) (Inr answer),
           SetRTCRemoteSDP (webRTCPeer this) answer res])))"
  using assms
  unfolding broadcast_negotiate_def Let_def
  by (auto dest!: call_result new_object_result broadcast_answer_shape
           split: prod.splits sum.splits if_splits)

lemma broadcast_guards:
  assumes "broadcast env options_arg this w = (res, this', w')"
  shows "(\<exists>msg. res = Inl (Error msg) \<and> this' = this \<and>
            (w' = w \<or> trace w' = trace w @ [GetRTCPeerStatus (webRTCPeer this) (Some ''connected'')]))
       \<or> (\<exists>opts pd ms st w1. options_arg = Some opts \<and> publisherData opts = Some pd \<and>
            mediaStream opts = Some ms \<and> st \<noteq> Some ''connected'' \<and>
            trace w1 = trace w @ [GetRTCPeerStatus (webRTCPeer this) st] \<and>
            heap_next w1 = heap_next w \<and>
            broadcast_negotiate env opts pd ms this w1 = (res, this', w'))"
proof (cases options_arg)
  case None
  with assms show ?thesis
    by (auto simp: broadcast_def supplied_options_def default_options_def)
next
  case (Some opts)
  show ?thesis
  proof (cases "publisherData opts")
    case None
    with Some assms show ?thesis by (auto simp: broadcast_def supplied_options_def)
  next
    case pd: (Some pd)
    show ?thesis
    proof (cases "mediaStream opts")
      case None
      with Some pd assms show ?thesis by (auto simp: broadcast_def supplied_options_def)
    next
      case ms: (Some ms)
      obtain active this1 w1 where act: "isActive env this w = (active, this1, w1)"
        by (cases "isActive env this w") auto
      from isActive_result [OF act] obtain st where
        st: "this1 = this" "heap_next w1 = heap_next w"
            "trace w1 = trace w @ [GetRTCPeerStatus (webRTCPeer this) st]"
            "active = (st = Some ''connected'')"
        by blast
      show ?thesis
      proof (cases active)
        case True
        with Some pd ms act st assms show ?thesis
          by (auto simp: broadcast_def supplied_options_def)
      next
        case False
        with Some pd ms act st assms
        have "broadcast_negotiate env opts pd ms this w1 = (res, this', w')"
          by (simp add: broadcast_def supplied_options_def)
        with Some pd ms st False show ?thesis by blast
      qed
    qed
  qed
qed

subsection \<open>The trace is what happened\<close>

text \<open>
  The collaborator state after a run of \<^verbatim>\<open>broadcast\<close> is the state reached by making
  exactly the logged calls, in order, from the state before, and each logged result is
  the result the call gave.
\<close>

lemma replay_append:
  "replay env (xs @ ys) c =
     (case replay env xs c of None \<Rightarrow> None | Some c' \<Rightarrow> replay env ys c')"
  by (induction xs arbitrary: c) (auto split: option.splits)

lemma broadcast_answer_replay:
  assumes "broadcast_answer env opts this remoteSdp w = (res, this', w')"
  shows "replay env (calls_between w w') (collab w) = Some (collab w')"
  using assms
  by (auto simp: broadcast_answer_def call_def calls_between_def
           split: prod.splits sum.splits if_splits)

lemma broadcast_negotiate_replay:
  assumes "broadcast_negotiate env opts pd ms this w = (res, this', w')"
  shows "replay env (calls_between w w') (collab w) = Some (collab w')"
  using assms
  by (auto simp: broadcast_negotiate_def broadcast_answer_def call_def effect_def new_object_def
                 Let_def calls_between_def
           split: prod.splits sum.splits if_splits)

lemma broadcast_replay:
  assumes "broadcast env options_arg this w = (res, this', w')"
  shows "replay env (calls_between w w') (collab w) = Some (collab w')"
proof (cases "\<exists>pd ms. publisherData (supplied_options env options_arg) = Some pd \<and>
                       mediaStream (supplied_options env options_arg) = Some ms")
  case False
  with assms show ?thesis
    by (auto simp: broadcast_def Let_def calls_between_def split: option.splits)
next
  case True
  then obtain pd ms where
    v: "publisherData (supplied_options env options_arg) = Some pd"
       "mediaStream (supplied_options env options_arg) = Some ms"
    by blast
  obtain st c1 where poll: "getRTCPeerStatus env (webRTCPeer this) (collab w) = (st, c1)"
    by (cases "getRTCPeerStatus env (webRTCPeer this) (collab w)") auto
  let ?w1 = "w\<lparr>collab := c1, trace := trace w @ [GetRTCPeerStatus (webRTCPeer this) st]\<rparr>"
  have act: "isActive env this w = (st = Some ''connected'', this, ?w1)"
    by (simp add: isActive_def call_def poll)
  show ?thesis
  proof (cases "st = Some ''connected''")
    case True
    with assms v act have "w' = ?w1"
      by (auto simp: broadcast_def Let_def)
    then show ?thesis
      by (simp add: calls_between_def poll)
  next
    case False
    with assms v act
    have neg: "broadcast_negotiate env (supplied_options env options_arg) pd ms this ?w1 = (res, this', w')"
      by (simp add: broadcast_def Let_def)
    from broadcast_negotiate_replay [OF neg]
    have r: "replay env (calls_between ?w1 w') c1 = Some (collab w')" by simp
    from broadcast_negotiate_shape [OF neg]
    obtain tl where tl: "trace w' = trace ?w1 @ tl"
      by (elim conjE disjE exE) simp_all
    then have "calls_between ?w1 w' = tl" by (simp add: calls_between_def)
    moreover from tl have "calls_between w w' = GetRTCPeerStatus (webRTCPeer this) st # tl"
      by (simp add: calls_between_def)
    ultimately show ?thesis using r by (simp add: poll)
  qed
qed

lemma replay_split:
  assumes "replay env (xs @ ys) c = Some c'"
  obtains mid where "replay env xs c = Some mid" "replay env ys mid = Some c'"
  using assms by (auto simp: replay_append split: option.splits)

subsection \<open>Two runs against the concrete collaborators\<close>

lemma stub_run:
  "broadcast stub_env (Some stub_options) idle_publisher idle_world = (Inr (), live_publisher, live_world)"
  by (simp add: broadcast_def supplied_options_def broadcast_negotiate_def broadcast_answer_def
          isActive_def call_def effect_def new_object_def stub_env_def stub_options_def
          idle_publisher_def idle_world_def live_publisher_def live_world_def signaling_url_def
          js_index_def template_text_def greater_zero_def)

lemma stub_run_unrestricted:
  "broadcast stub_env (Some (stub_options\<lparr>bandwidth := Some 0\<rparr>)) idle_publisher idle_world =
     (Inr (), live_publisher,
      live_world\<lparr>trace := take 8 (trace live_world) @ [SetRTCRemoteSDP 0 ''answer:offer'' (Inr ())]\<rparr>)"
  by (simp add: broadcast_def supplied_options_def broadcast_negotiate_def broadcast_answer_def
          isActive_def call_def effect_def new_object_def stub_env_def stub_options_def
          idle_publisher_def idle_world_def live_publisher_def live_world_def signaling_url_def
          js_index_def template_text_def greater_zero_def)

lemma stub_run_no_urls:
  "broadcast stub_env (Some (stub_options\<lparr>publisherData := Some \<lparr>urls = [], jwt = ''tok''\<rparr>\<rparr>))
     idle_publisher idle_world =
     (Inr (), live_publisher,
      live_world\<lparr>trace := take 2 (trace live_world) @
                          [NewMillicastSignaling 1 (JString ''s'') ''undefined?token=tok''] @
                          drop 3 (trace live_world)\<rparr>)"
  by (simp add: broadcast_def supplied_options_def broadcast_negotiate_def broadcast_answer_def
          isActive_def call_def effect_def new_object_def stub_env_def stub_options_def
          idle_publisher_def idle_world_def live_publisher_def live_world_def signaling_url_def
          js_index_def template_text_def greater_zero_def)

subsection \<open>The order of operations\<close>



subsection \<open>The bandwidth rewrite\<close>

text \<open>
  C2. In a run of \<^verbatim>\<open>broadcast\<close> where \<^verbatim>\<open>publish\<close> has resolved with an answer, let
  \<open>c\<close> be the collaborator state that the calls up to and including \<^verbatim>\<open>publish\<close> have
  produced. When \<^verbatim>\<open>options.disableVideo\<close> is falsy and \<^verbatim>\<open>options.bandwidth > 0\<close>, the
  next call is \<^verbatim>\<open>updateBandwidthRestriction\<close> on the answer and \<^verbatim>\<open>options.bandwidth\<close>
  in state \<open>c\<close>, and \<^verbatim>\<open>setRTCRemoteSDP\<close> is then called with the text that call
  returned. For every other combination of options \<^verbatim>\<open>setRTCRemoteSDP\<close> is called in
  state \<open>c\<close> with the answer itself, and \<^verbatim>\<open>updateBandwidthRestriction\<close> is not called
  at all. In both cases the outcome of \<^verbatim>\<open>setRTCRemoteSDP\<close> is the outcome of
  \<^verbatim>\<open>broadcast\<close> and the state it leaves is the final collaborator state.
\<close>

theorem broadcast_bandwidth_rewrite:
  assumes run: "broadcast env (Some opts) this w = (res, this', w')"
      and answered: "Publish sg offer cd (Inr answer) \<in> set (calls_between w w')"
  shows "\<exists>before c.
           (\<forall>r s b out. UpdateBandwidthRestriction r s b out \<notin> set before) \<and>
           replay env (before @ [Publish sg offer cd (Inr answer)]) (collab w) = Some c \<and>
           (if \<not> truthy (disableVideo opts) \<and> greater_zero (bandwidth opts)
            then \<exists>handed c'.
                   calls_between w w' =
                     before @
                     [Publish sg offer cd (Inr answer),
                      UpdateBandwidthRestriction (webRTCPeer this) answer (bandwidth opts) handed,
                      SetRTCRemoteSDP (webRTCPeer this) handed res] \<and>
                   updateBandwidthRestriction env (webRTCPeer this) answer (bandwidth opts) c =
                     (handed, c') \<and>
                   setRTCRemoteSDP env (webRTCPeer this) handed c' = (res, collab w')
            else calls_between w w' =
                   before @
                   [Publish sg offer cd (Inr answer),
                    SetRTCRemoteSDP (webRTCPeer this) answer res] \<and>
                 setRTCRemoteSDP env (webRTCPeer this) answer c = (res, collab w'))"
proof -
  from broadcast_guards [OF run] answered obtain pd ms st w1 where
    g: "trace w1 = trace w @ [GetRTCPeerStatus (webRTCPeer this) st]"
       "heap_next w1 = heap_next w"
       "broadcast_negotiate env opts pd ms this w1 = (res, this', w')"
    by (auto simp: calls_between_def)
  let ?R = "\<not> truthy (disableVideo opts) \<and> greater_zero (bandwidth opts)"
  let ?before = "GetRTCPeerStatus (webRTCPeer this) st # opening_calls env opts pd this (heap_next w) @
          [GetRTCLocalSDP (webRTCPeer this)
             (LocalSDPOptions ms (simulcast opts) (codec opts) (scalabilityMode opts)) (Inr offer)]"
  have clean: "\<forall>r s b out. UpdateBandwidthRestriction r s b out \<notin> set ?before"
    by simp
  note whole = broadcast_replay [OF run]
  from broadcast_negotiate_shape [OF g(3)] g(1,2) answered
  consider
    (restricted) handed where "?R"
      "calls_between w w' = (?before @ [Publish sg offer cd (Inr answer)]) @
          [UpdateBandwidthRestriction (webRTCPeer this) answer (bandwidth opts) handed,
           SetRTCRemoteSDP (webRTCPeer this) handed res]"
  | (plain) "\<not> ?R"
      "calls_between w w' = (?before @ [Publish sg offer cd (Inr answer)]) @
          [SetRTCRemoteSDP (webRTCPeer this) answer res]"
    by (elim conjE disjE exE) (auto simp: calls_between_def)
  then show ?thesis
  proof cases
    case restricted
    from whole [unfolded restricted(2)] obtain c where
      c: "replay env (?before @ [Publish sg offer cd (Inr answer)]) (collab w) = Some c"
         "replay env
            [UpdateBandwidthRestriction (webRTCPeer this) answer (bandwidth opts) handed,
             SetRTCRemoteSDP (webRTCPeer this) handed res] c = Some (collab w')"
      by (rule replay_split)
    from c(2) have
      "updateBandwidthRestriction env (webRTCPeer this) answer (bandwidth opts) c =
         (handed, snd (updateBandwidthRestriction env (webRTCPeer this) answer (bandwidth opts) c))"
      "setRTCRemoteSDP env (webRTCPeer this) handed
         (snd (updateBandwidthRestriction env (webRTCPeer this) answer (bandwidth opts) c)) =
         (res, collab w')"
      by (auto simp: prod_eq_iff split: if_splits)
    with restricted c(1) clean show ?thesis
      by (intro exI [of _ ?before] exI [of _ c]) auto
  next
    case plain
    from whole [unfolded plain(2)] obtain c where
      c: "replay env (?before @ [Publish sg offer cd (Inr answer)]) (collab w) = Some c"
         "replay env [SetRTCRemoteSDP (webRTCPeer this) answer res] c = Some (collab w')"
      by (rule replay_split)
    from c(2) have "setRTCRemoteSDP env (webRTCPeer this) answer c = (res, collab w')"
      by (auto simp: prod_eq_iff split: if_splits)
    with plain c(1) clean show ?thesis
      by (intro exI [of _ ?before] exI [of _ c]) auto
  qed
qed

theorem broadcast_bandwidth_rewrite_witness:
  "(Publish 1 ''offer'' (Some ''h264'') (Inr ''answer:offer'') \<in> set (calls_between idle_world live_world)
    \<and> (\<exists>before c handed c'.
          replay stub_env (before @ [Publish 1 ''offer'' (Some ''h264'') (Inr ''answer:offer'')])
            (collab idle_world) = Some c \<and>
          calls_between idle_world live_world =
            before @
            [Publish 1 ''offer'' (Some ''h264'') (Inr ''answer:offer''),
             UpdateBandwidthRestriction 0 ''answer:offer'' (Some 1000) handed,
             SetRTCRemoteSDP 0 handed (Inr ())] \<and>
          updateBandwidthRestriction stub_env 0 ''answer:offer'' (Some 1000) c = (handed, c') \<and>
          setRTCRemoteSDP stub_env 0 handed c' = (Inr (), collab live_world)))
   \<and> (\<exists>w'. broadcast stub_env (Some (stub_options\<lparr>bandwidth := Some 0\<rparr>)) idle_publisher idle_world =
              (Inr (), live_publisher, w')
          \<and> Publish 1 ''offer'' (Some ''h264'') (Inr ''answer:offer'') \<in> set (calls_between idle_world w')
          \<and> (\<exists>before c.
                replay stub_env (before @ [Publish 1 ''offer'' (Some ''h264'') (Inr ''answer:offer'')])
                  (collab idle_world) = Some c \<and>
                calls_between idle_world w' =
                  before @
                  [Publish 1 ''offer'' (Some ''h264'') (Inr ''answer:offer''),
                   SetRTCRemoteSDP 0 ''answer:offer'' (Inr ())] \<and>
                setRTCRemoteSDP stub_env 0 ''answer:offer'' c = (Inr (), collab w')))"
proof -
  have a1: "Publish 1 ''offer'' (Some ''h264'') (Inr ''answer:offer'')
              \<in> set (calls_between idle_world live_world)"
    by (simp add: calls_between_def idle_world_def live_world_def)
  have a2: "Publish 1 ''offer'' (Some ''h264'') (Inr ''answer:offer'')
              \<in> set (calls_between idle_world
                   (live_world\<lparr>trace := take 8 (trace live_world) @ [SetRTCRemoteSDP 0 ''answer:offer'' (Inr ())]\<rparr>))"
    by (simp add: calls_between_def idle_world_def live_world_def)
  from broadcast_bandwidth_rewrite [OF stub_run a1]
  have "\<exists>before c handed c'.
          replay stub_env (before @ [Publish 1 ''offer'' (Some ''h264'') (Inr ''answer:offer'')])
            (collab idle_world) = Some c \<and>
          calls_between idle_world live_world =
            before @
            [Publish 1 ''offer'' (Some ''h264'') (Inr ''answer:offer''),
             UpdateBandwidthRestriction 0 ''answer:offer'' (Some 1000) handed,
             SetRTCRemoteSDP 0 handed (Inr ())] \<and>
          updateBandwidthRestriction stub_env 0 ''answer:offer'' (Some 1000) c = (handed, c') \<and>
          setRTCRemoteSDP stub_env 0 handed c' = (Inr (), collab live_world)"
    by (simp add: stub_options_def greater_zero_def idle_publisher_def) blast
  with a1 have first:
    "Publish 1 ''offer'' (Some ''h264'') (Inr ''answer:offer'') \<in> set (calls_between idle_world live_world)
    \<and> (\<exists>before c handed c'.
          replay stub_env (before @ [Publish 1 ''offer'' (Some ''h264'') (Inr ''answer:offer'')])
            (collab idle_world) = Some c \<and>
          calls_between idle_world live_world =
            before @
            [Publish 1 ''offer'' (Some ''h264'') (Inr ''answer:offer''),
             UpdateBandwidthRestriction 0 ''answer:offer'' (Some 1000) handed,
             SetRTCRemoteSDP 0 handed (Inr ())] \<and>
          updateBandwidthRestriction stub_env 0 ''answer:offer'' (Some 1000) c = (handed, c') \<and>
          setRTCRemoteSDP stub_env 0 handed c' = (Inr (), collab live_world))"
    by (rule conjI)
  from broadcast_bandwidth_rewrite [OF stub_run_unrestricted a2]
  have "\<exists>before c.
          replay stub_env (before @ [Publish 1 ''offer'' (Some ''h264'') (Inr ''answer:offer'')])
            (collab idle_world) = Some c \<and>
          calls_between idle_world
            (live_world\<lparr>trace := take 8 (trace live_world) @ [SetRTCRemoteSDP 0 ''answer:offer'' (Inr ())]\<rparr>) =
            before @
            [Publish 1 ''offer'' (Some ''h264'') (Inr ''answer:offer''),
             SetRTCRemoteSDP 0 ''answer:offer'' (Inr ())] \<and>
          setRTCRemoteSDP stub_env 0 ''answer:offer'' c =
            (Inr (), collab (live_world\<lparr>trace := take 8 (trace live_world) @ [SetRTCRemoteSDP 0 ''answer:offer'' (Inr ())]\<rparr>))"
    by (simp add: stub_options_def greater_zero_def idle_publisher_def) blast
  with stub_run_unrestricted a2 have second:
    "\<exists>w'. broadcast stub_env (Some (stub_options\<lparr>bandwidth := Some 0\<rparr>)) idle_publisher idle_world =
              (Inr (), live_publisher, w')
          \<and> Publish 1 ''offer'' (Some ''h264'') (Inr ''answer:offer'') \<in> set (calls_between idle_world w')
          \<and> (\<exists>before c.
                replay stub_env (before @ [Publish 1 ''offer'' (Some ''h264'') (Inr ''answer:offer'')])
                  (collab idle_world) = Some c \<and>
                calls_between idle_world w' =
                  before @
                  [Publish 1 ''offer'' (Some ''h264'') (Inr ''answer:offer''),
                   SetRTCRemoteSDP 0 ''answer:offer'' (Inr ())] \<and>
                setRTCRemoteSDP stub_env 0 ''answer:offer'' c = (Inr (), collab w'))"
    by blast
  from first second show ?thesis by (rule conjI)
qed

subsection \<open>The SDP texts are passed along as they are\<close>



subsection \<open>The signaling URL\<close>

lemma signaling_url_text:
  "signaling_url pd =
     (case urls pd of [] \<Rightarrow> ''undefined'' | u # further \<Rightarrow> u) @ ''?token='' @ jwt pd"
  by (simp add: signaling_url_def js_index_def template_text_def split: list.splits)

lemma signaling_url_same_first:
  assumes "take 1 (urls pd2) = take 1 (urls pd)" "jwt pd2 = jwt pd"
  shows "signaling_url pd2 = signaling_url pd"
  using assms
  by (cases "urls pd"; cases "urls pd2") (simp_all add: signaling_url_text)

lemma broadcast_answer_publisherData [simp]:
  "broadcast_answer env (opts\<lparr>publisherData := anything\<rparr>) = broadcast_answer env opts"
  by (simp add: broadcast_answer_def fun_eq_iff)

lemma broadcast_negotiate_publisherData [simp]:
  "broadcast_negotiate env (opts\<lparr>publisherData := anything\<rparr>) = broadcast_negotiate env opts"
  by (simp add: broadcast_negotiate_def fun_eq_iff Let_def cong: prod.case_cong sum.case_cong)

lemma broadcast_negotiate_url:
  "signaling_url pd2 = signaling_url pd \<Longrightarrow>
   broadcast_negotiate env opts pd2 = broadcast_negotiate env opts pd"
  by (simp add: broadcast_negotiate_def fun_eq_iff)

lemma broadcast_past_guards:
  assumes "publisherData opts = Some pd" "mediaStream opts = Some ms"
          "\<not> fst (isActive env this w)"
  shows "\<exists>st w1. trace w1 = trace w @ [GetRTCPeerStatus (webRTCPeer this) st] \<and>
                 heap_next w1 = heap_next w \<and>
                 broadcast env (Some opts) this w = broadcast_negotiate env opts pd ms this w1"
proof -
  obtain active this1 w1 where act: "isActive env this w = (active, this1, w1)"
    by (cases "isActive env this w") auto
  with assms(3) have idle: "\<not> active" by simp
  from isActive_result [OF act] obtain st where
    st: "this1 = this" "heap_next w1 = heap_next w"
        "trace w1 = trace w @ [GetRTCPeerStatus (webRTCPeer this) st]"
    by blast
  have "broadcast env (Some opts) this w = broadcast_negotiate env opts pd ms this w1"
    unfolding broadcast_def supplied_options_def Let_def
    by (simp add: assms(1,2) act idle st(1))
  with st show ?thesis by blast
qed


lemma broadcast_url_only:
  assumes "signaling_url pd2 = signaling_url pd"
  shows "broadcast env (Some (opts\<lparr>publisherData := Some pd2\<rparr>)) this w =
         broadcast env (Some (opts\<lparr>publisherData := Some pd\<rparr>)) this w"
proof (cases "mediaStream opts")
  case None
  then show ?thesis by (simp add: broadcast_def supplied_options_def)
next
  case (Some ms)
  obtain active this1 w1 where act: "isActive env this w = (active, this1, w1)"
    by (cases "isActive env this w") auto
  show ?thesis
    unfolding broadcast_def supplied_options_def Let_def
    by (simp add: Some act broadcast_negotiate_url [OF assms])
qed

text \<open>
  C10. For a call of \<^verbatim>\<open>broadcast\<close> that passes the three guards: right after the status
  poll the run constructs one signaling object, and the constructor is run with the URL
  made of the first element of \<^verbatim>\<open>urls\<close> (the text \<^verbatim>\<open>undefined\<close> when the array is
  empty), \<^verbatim>\<open>?token=\<close> and the JWT; no other signaling object is constructed, and the
  final collaborator state is the one the remaining logged calls produce from the state
  the constructor left. The object is stored in \<^verbatim>\<open>millicastSignaling\<close>. The whole outcome
  (result, publisher, collaborator state and trace) is the same for every connection
  path with the same JWT and the same first URL, whatever its further URLs are.
\<close>

theorem signaling_url_first_only:
  assumes valid: "publisherData opts = Some pd" "mediaStream opts = Some ms"
                 "\<not> fst (isActive env this w)"
      and same_first: "take 1 (urls pd2) = take 1 (urls pd)" "jwt pd2 = jwt pd"
      and run: "broadcast env (Some opts) this w = (res, this', w')"
  shows "(\<exists>st c1 rest.
            getRTCPeerStatus env (webRTCPeer this) (collab w) = (st, c1) \<and>
            calls_between w w' =
              GetRTCPeerStatus (webRTCPeer this) st #
              NewMillicastSignaling (heap_next w) (streamName this)
                ((case urls pd of [] \<Rightarrow> ''undefined'' | u # further \<Rightarrow> u) @ ''?token='' @ jwt pd) #
              rest \<and>
            (\<forall>r n url. NewMillicastSignaling r n url \<notin> set rest) \<and>
            replay env rest
              (init_MillicastSignaling env (heap_next w) (streamName this)
                 ((case urls pd of [] \<Rightarrow> ''undefined'' | u # further \<Rightarrow> u) @ ''?token='' @ jwt pd)
                 c1) = Some (collab w'))
       \<and> millicastSignaling this' = Some (heap_next w)
       \<and> broadcast env (Some (opts\<lparr>publisherData := Some pd2\<rparr>)) this w = (res, this', w')"
proof -
  let ?url = "(case urls pd of [] \<Rightarrow> ''undefined'' | u # further \<Rightarrow> u) @ ''?token='' @ jwt pd"
  from broadcast_past_guards [OF valid] run obtain st w1 where
    g: "trace w1 = trace w @ [GetRTCPeerStatus (webRTCPeer this) st]"
       "heap_next w1 = heap_next w"
       "broadcast_negotiate env opts pd ms this w1 = (res, this', w')"
    by auto
  have url: "signaling_url pd = ?url"
    by (rule signaling_url_text)
  note shape = broadcast_negotiate_shape [OF g(3), unfolded g(1,2) url]
  from shape
  obtain rest where rest:
      "calls_between w w' =
         GetRTCPeerStatus (webRTCPeer this) st #
         NewMillicastSignaling (heap_next w) (streamName this) ?url # rest"
      "\<forall>r n url. NewMillicastSignaling r n url \<notin> set rest"
    by (elim conjE disjE exE) (simp_all add: calls_between_def)
  from broadcast_replay [OF run, unfolded rest(1)]
  have poll: "getRTCPeerStatus env (webRTCPeer this) (collab w) =
                (st, snd (getRTCPeerStatus env (webRTCPeer this) (collab w)))"
    and after: "replay env rest
              (init_MillicastSignaling env (heap_next w) (streamName this) ?url
                 (snd (getRTCPeerStatus env (webRTCPeer this) (collab w)))) = Some (collab w')"
    by (auto simp: prod_eq_iff split: if_splits)
  from poll rest after
  have calls: "\<exists>st c1 rest.
            getRTCPeerStatus env (webRTCPeer this) (collab w) = (st, c1) \<and>
            calls_between w w' =
              GetRTCPeerStatus (webRTCPeer this) st #
              NewMillicastSignaling (heap_next w) (streamName this) ?url # rest \<and>
            (\<forall>r n url. NewMillicastSignaling r n url \<notin> set rest) \<and>
            replay env rest
              (init_MillicastSignaling env (heap_next w) (streamName this) ?url c1) = Some (collab w')"
    by blast
  from shape have field: "millicastSignaling this' = Some (heap_next w)" by simp
  have "opts\<lparr>publisherData := Some pd\<rparr> = opts"
    using valid(1) by simp
  with broadcast_url_only [OF signaling_url_same_first [OF same_first], of env opts this w] run
  have same: "broadcast env (Some (opts\<lparr>publisherData := Some pd2\<rparr>)) this w = (res, this', w')"
    by simp
  from calls field same show ?thesis by (intro conjI)
qed

theorem signaling_url_first_only_witness:
  "(publisherData stub_options = Some \<lparr>urls = [''wss://a'', ''wss://b''], jwt = ''tok''\<rparr>
    \<and> mediaStream stub_options = Some 7
    \<and> \<not> fst (isActive stub_env idle_publisher idle_world)
    \<and> take 1 (urls \<lparr>urls = [''wss://a''], jwt = ''tok''\<rparr>) =
        take 1 (urls \<lparr>urls = [''wss://a'', ''wss://b''], jwt = ''tok''\<rparr>)
    \<and> broadcast stub_env (Some stub_options) idle_publisher idle_world =
        (Inr (), live_publisher, live_world)
    \<and> (\<exists>st c1 rest.
          getRTCPeerStatus stub_env 0 (collab idle_world) = (st, c1) \<and>
          calls_between idle_world live_world =
            GetRTCPeerStatus 0 st #
            NewMillicastSignaling 1 (JString ''s'') ''wss://a?token=tok'' # rest \<and>
          (\<forall>r n url. NewMillicastSignaling r n url \<notin> set rest) \<and>
          replay stub_env rest
            (init_MillicastSignaling stub_env 1 (JString ''s'') ''wss://a?token=tok'' c1) =
            Some (collab live_world))
    \<and> millicastSignaling live_publisher = Some 1
    \<and> broadcast stub_env
         (Some (stub_options\<lparr>publisherData := Some \<lparr>urls = [''wss://a''], jwt = ''tok''\<rparr>\<rparr>))
         idle_publisher idle_world =
        (Inr (), live_publisher, live_world))
   \<and> (\<exists>w'. broadcast stub_env
               (Some (stub_options\<lparr>publisherData := Some \<lparr>urls = [], jwt = ''tok''\<rparr>\<rparr>))
               idle_publisher idle_world = (Inr (), live_publisher, w')
          \<and> (\<exists>st c1 rest.
                getRTCPeerStatus stub_env 0 (collab idle_world) = (st, c1) \<and>
                calls_between idle_world w' =
                  GetRTCPeerStatus 0 st #
                  NewMillicastSignaling 1 (JString ''s'') ''undefined?token=tok'' # rest \<and>
                (\<forall>r n url. NewMillicastSignaling r n url \<notin> set rest) \<and>
                replay stub_env rest
                  (init_MillicastSignaling stub_env 1 (JString ''s'') ''undefined?token=tok'' c1) =
                  Some (collab w')))"
proof -
  have pd: "publisherData stub_options = Some \<lparr>urls = [''wss://a'', ''wss://b''], jwt = ''tok''\<rparr>"
    and ms: "mediaStream stub_options = Some 7"
    by (simp_all add: stub_options_def)
  have idle: "\<not> fst (isActive stub_env idle_publisher idle_world)"
    by (simp add: isActive_def call_def stub_env_def idle_publisher_def idle_world_def)
  have same: "take 1 (urls \<lparr>urls = [''wss://a''], jwt = ''tok''\<rparr>) =
              take 1 (urls \<lparr>urls = [''wss://a'', ''wss://b''], jwt = ''tok''\<rparr>)"
    and tok: "jwt \<lparr>urls = [''wss://a''], jwt = ''tok''\<rparr> =
              jwt \<lparr>urls = [''wss://a'', ''wss://b''], jwt = ''tok''\<rparr>"
    by simp_all
  from signaling_url_first_only [OF pd ms idle same tok stub_run] pd ms idle same stub_run
  have first:
   "publisherData stub_options = Some \<lparr>urls = [''wss://a'', ''wss://b''], jwt = ''tok''\<rparr>
    \<and> mediaStream stub_options = Some 7
    \<and> \<not> fst (isActive stub_env idle_publisher idle_world)
    \<and> take 1 (urls \<lparr>urls = [''wss://a''], jwt = ''tok''\<rparr>) =
        take 1 (urls \<lparr>urls = [''wss://a'', ''wss://b''], jwt = ''tok''\<rparr>)
    \<and> broadcast stub_env (Some stub_options) idle_publisher idle_world =
        (Inr (), live_publisher, live_world)
    \<and> (\<exists>st c1 rest.
          getRTCPeerStatus stub_env 0 (collab idle_world) = (st, c1) \<and>
          calls_between idle_world live_world =
            GetRTCPeerStatus 0 st #
            NewMillicastSignaling 1 (JString ''s'') ''wss://a?token=tok'' # rest \<and>
          (\<forall>r n url. NewMillicastSignaling r n url \<notin> set rest) \<and>
          replay stub_env rest
            (init_MillicastSignaling stub_env 1 (JString ''s'') ''wss://a?token=tok'' c1) =
            Some (collab live_world))
    \<and> millicastSignaling live_publisher = Some 1
    \<and> broadcast stub_env
         (Some (stub_options\<lparr>publisherData := Some \<lparr>urls = [''wss://a''], jwt = ''tok''\<rparr>\<rparr>))
         idle_publisher idle_world =
        (Inr (), live_publisher, live_world)"
    by (simp add: idle_publisher_def idle_world_def)
  have pd0: "publisherData (stub_options\<lparr>publisherData := Some \<lparr>urls = [], jwt = ''tok''\<rparr>\<rparr>) =
               Some \<lparr>urls = [], jwt = ''tok''\<rparr>"
    and ms0: "mediaStream (stub_options\<lparr>publisherData := Some \<lparr>urls = [], jwt = ''tok''\<rparr>\<rparr>) = Some 7"
    by (simp_all add: stub_options_def)
  from signaling_url_first_only [OF pd0 ms0 idle refl refl stub_run_no_urls] stub_run_no_urls
  have second:
    "\<exists>w'. broadcast stub_env
               (Some (stub_options\<lparr>publisherData := Some \<lparr>urls = [], jwt = ''tok''\<rparr>\<rparr>))
               idle_publisher idle_world = (Inr (), live_publisher, w')
          \<and> (\<exists>st c1 rest.
                getRTCPeerStatus stub_env 0 (collab idle_world) = (st, c1) \<and>
                calls_between idle_world w' =
                  GetRTCPeerStatus 0 st #
                  NewMillicastSignaling 1 (JString ''s'') ''undefined?token=tok'' # rest \<and>
                (\<forall>r n url. NewMillicastSignaling r n url \<notin> set rest) \<and>
                replay stub_env rest
                  (init_MillicastSignaling stub_env 1 (JString ''s'') ''undefined?token=tok'' c1) =
                  Some (collab w'))"
    by (simp add: idle_publisher_def idle_world_def)
  from first second show ?thesis by (rule conjI)
qed

subsection \<open>The guards of broadcast\<close>

lemma live_isActive: "fst (isActive stub_env live_publisher live_world)"
  by (simp add: isActive_def call_def stub_env_def live_publisher_def live_world_def)

lemma broadcast_rejected:
  assumes "publisherData (supplied_options env options_arg) = None
           \<or> mediaStream (supplied_options env options_arg) = None
           \<or> fst (isActive env this w)"
  shows "\<exists>w'. broadcast env options_arg this w =
           (Inl (Error
              (if publisherData (supplied_options env options_arg) = None
               then ''Publisher data required''
               else if mediaStream (supplied_options env options_arg) = None
               then ''MediaStream required''
               else ''Broadcast currently working'')), this, w')
         \<and> heap_next w' = heap_next w
         \<and> (calls_between w w' = [] \<or>
            calls_between w w' = [GetRTCPeerStatus (webRTCPeer this) (Some ''connected'')])"
proof -
  obtain active this1 w1 where act: "isActive env this w = (active, this1, w1)"
    by (cases "isActive env this w") auto
  from isActive_result [OF act] obtain st where
    st: "this1 = this" "heap_next w1 = heap_next w"
        "trace w1 = trace w @ [GetRTCPeerStatus (webRTCPeer this) st]"
        "active = (st = Some ''connected'')"
    by blast
  from assms act st show ?thesis
    by (auto simp: broadcast_def Let_def calls_between_def split: option.splits)
qed

text \<open>
  C5. When the options (the default ones for a call without argument) lack
  \<^verbatim>\<open>publisherData\<close> or \<^verbatim>\<open>mediaStream\<close>, or the publisher is active, \<^verbatim>\<open>broadcast\<close>
  throws one of its three validation errors; the publisher is returned as it was, so
  \<^verbatim>\<open>millicastSignaling\<close> is unchanged; no object has been allocated; and the only
  collaborator call that can have happened is the status poll of \<^verbatim>\<open>isActive\<close>, which
  answered \<^verbatim>\<open>'connected'\<close>.
\<close>

theorem broadcast_validation_first:
  assumes "publisherData (supplied_options env options_arg) = None
           \<or> mediaStream (supplied_options env options_arg) = None
           \<or> fst (isActive env this w)"
  shows "\<exists>msg w'. broadcast env options_arg this w = (Inl (Error msg), this, w')
         \<and> msg \<in> {''Publisher data required'', ''MediaStream required'', ''Broadcast currently working''}
         \<and> heap_next w' = heap_next w
         \<and> (calls_between w w' = [] \<or>
            calls_between w w' = [GetRTCPeerStatus (webRTCPeer this) (Some ''connected'')])"
  using broadcast_rejected [OF assms] by (auto split: if_splits)

theorem broadcast_validation_first_witness:
  "publisherData (supplied_options stub_env None) = None
   \<and> (\<exists>msg w'. broadcast stub_env None idle_publisher idle_world = (Inl (Error msg), idle_publisher, w')
         \<and> msg \<in> {''Publisher data required'', ''MediaStream required'', ''Broadcast currently working''}
         \<and> heap_next w' = heap_next idle_world
         \<and> (calls_between idle_world w' = [] \<or>
            calls_between idle_world w' = [GetRTCPeerStatus (webRTCPeer idle_publisher) (Some ''connected'')]))
   \<and> mediaStream (supplied_options stub_env (Some (stub_options\<lparr>mediaStream := None\<rparr>))) = None
   \<and> (\<exists>msg w'. broadcast stub_env (Some (stub_options\<lparr>mediaStream := None\<rparr>)) idle_publisher idle_world =
                   (Inl (Error msg), idle_publisher, w')
         \<and> msg \<in> {''Publisher data required'', ''MediaStream required'', ''Broadcast currently working''}
         \<and> heap_next w' = heap_next idle_world
         \<and> (calls_between idle_world w' = [] \<or>
            calls_between idle_world w' = [GetRTCPeerStatus (webRTCPeer idle_publisher) (Some ''connected'')]))
   \<and> fst (isActive stub_env live_publisher live_world)
   \<and> (\<exists>msg w'. broadcast stub_env (Some stub_options) live_publisher live_world =
                   (Inl (Error msg), live_publisher, w')
         \<and> msg \<in> {''Publisher data required'', ''MediaStream required'', ''Broadcast currently working''}
         \<and> heap_next w' = heap_next live_world
         \<and> (calls_between live_world w' = [] \<or>
            calls_between live_world w' = [GetRTCPeerStatus (webRTCPeer live_publisher) (Some ''connected'')]))"
proof -
  have h1: "publisherData (supplied_options stub_env None) = None"
    by (simp add: supplied_options_def default_options_def)
  have h2: "mediaStream (supplied_options stub_env (Some (stub_options\<lparr>mediaStream := None\<rparr>))) = None"
    by (simp add: supplied_options_def)
  note h3 = live_isActive
  from broadcast_validation_first [of stub_env None idle_publisher idle_world, OF disjI1, OF h1]
       broadcast_validation_first [of stub_env "Some (stub_options\<lparr>mediaStream := None\<rparr>)"
                                      idle_publisher idle_world, OF disjI2, OF disjI1, OF h2]
       broadcast_validation_first [of stub_env "Some stub_options" live_publisher live_world,
                                      OF disjI2, OF disjI2, OF h3]
       h1 h2 h3
  show ?thesis by (intro conjI)
qed

text \<open>
  C3, as stated, fails: an active publisher that is given options without
  \<^verbatim>\<open>publisherData\<close> throws \<^verbatim>\<open>'Publisher data required'\<close>, since that guard comes before
  the call of \<^verbatim>\<open>isActive\<close>.
\<close>

theorem broadcast_while_active_counterexample:
  "fst (isActive stub_env live_publisher live_world)
   \<and> fst (broadcast stub_env (Some (stub_options\<lparr>publisherData := None\<rparr>)) live_publisher live_world)
       = Inl (Error ''Publisher data required'')
   \<and> fst (broadcast stub_env (Some (stub_options\<lparr>publisherData := None\<rparr>)) live_publisher live_world)
       \<noteq> Inl (Error ''Broadcast currently working'')"
  by (simp add: broadcast_def supplied_options_def isActive_def call_def stub_env_def
        live_publisher_def live_world_def)

text \<open>
  C3, amended. For a publisher whose \<^verbatim>\<open>isActive()\<close> is true, \<^verbatim>\<open>broadcast\<close> throws for
  any options and starts no session: the publisher is returned as it was, no object is
  allocated and at most the status poll is made. The error is
  \<^verbatim>\<open>'Broadcast currently working'\<close> when the options carry both \<^verbatim>\<open>publisherData\<close> and
  \<^verbatim>\<open>mediaStream\<close>; otherwise it is the error of the first input guard that fails.
\<close>

theorem broadcast_while_active:
  assumes "fst (isActive env this w)"
  shows "\<exists>msg w'. broadcast env options_arg this w = (Inl (Error msg), this, w')
         \<and> msg = (if publisherData (supplied_options env options_arg) = None
                  then ''Publisher data required''
                  else if mediaStream (supplied_options env options_arg) = None
                  then ''MediaStream required''
                  else ''Broadcast currently working'')
         \<and> heap_next w' = heap_next w
         \<and> (calls_between w w' = [] \<or>
            calls_between w w' = [GetRTCPeerStatus (webRTCPeer this) (Some ''connected'')])"
  using broadcast_rejected [of env options_arg this w] assms by blast

theorem broadcast_while_active_witness:
  "fst (isActive stub_env live_publisher live_world)
   \<and> (\<exists>msg w'. broadcast stub_env (Some stub_options) live_publisher live_world =
                  (Inl (Error msg), live_publisher, w')
         \<and> msg = (if publisherData (supplied_options stub_env (Some stub_options)) = None
                  then ''Publisher data required''
                  else if mediaStream (supplied_options stub_env (Some stub_options)) = None
                  then ''MediaStream required''
                  else ''Broadcast currently working'')
         \<and> heap_next w' = heap_next live_world
         \<and> (calls_between live_world w' = [] \<or>
            calls_between live_world w' = [GetRTCPeerStatus (webRTCPeer live_publisher) (Some ''connected'')]))
   \<and> fst (broadcast stub_env (Some stub_options) live_publisher live_world)
       = Inl (Error ''Broadcast currently working'')"
proof -
  have "fst (broadcast stub_env (Some stub_options) live_publisher live_world)
       = Inl (Error ''Broadcast currently working'')"
    by (simp add: broadcast_def supplied_options_def isActive_def call_def stub_env_def
        live_publisher_def live_world_def stub_options_def)
  with broadcast_while_active [OF live_isActive, of "Some stub_options"] live_isActive
  show ?thesis by (intro conjI)
qed

subsection \<open>The status query\<close>

text \<open>
  C4. \<^verbatim>\<open>isActive\<close> makes one call, \<^verbatim>\<open>getRTCPeerStatus\<close> on the publisher's peer, and
  returns true exactly when the status it got is the string \<^verbatim>\<open>'connected'\<close>; any other
  status, an absent one included, gives false. The publisher is returned as it was.
\<close>

theorem isActive_polls_status:
  assumes "isActive env this w = (active, this', w')"
  shows "active = (fst (getRTCPeerStatus env (webRTCPeer this) (collab w)) = Some ''connected'')
         \<and> this' = this
         \<and> heap_next w' = heap_next w
         \<and> calls_between w w' =
             [GetRTCPeerStatus (webRTCPeer this)
                (fst (getRTCPeerStatus env (webRTCPeer this) (collab w)))]"
  using isActive_result [OF assms] by auto

theorem isActive_polls_status_witness:
  "isActive stub_env live_publisher live_world =
     (True, live_publisher, live_world\<lparr>trace := trace live_world @ [GetRTCPeerStatus 0 (Some ''connected'')]\<rparr>)
   \<and> True = (fst (getRTCPeerStatus stub_env (webRTCPeer live_publisher) (collab live_world)) = Some ''connected'')
   \<and> isActive stub_env idle_publisher idle_world =
     (False, idle_publisher, idle_world\<lparr>trace := trace idle_world @ [GetRTCPeerStatus 0 None]\<rparr>)
   \<and> False = (fst (getRTCPeerStatus stub_env (webRTCPeer idle_publisher) (collab idle_world)) = Some ''connected'')"
proof -
  have live: "isActive stub_env live_publisher live_world =
     (True, live_publisher, live_world\<lparr>trace := trace live_world @ [GetRTCPeerStatus 0 (Some ''connected'')]\<rparr>)"
    by (simp add: isActive_def call_def stub_env_def live_publisher_def live_world_def)
  have idle: "isActive stub_env idle_publisher idle_world =
     (False, idle_publisher, idle_world\<lparr>trace := trace idle_world @ [GetRTCPeerStatus 0 None]\<rparr>)"
    by (simp add: isActive_def call_def stub_env_def idle_publisher_def idle_world_def)
  from isActive_polls_status [OF live] isActive_polls_status [OF idle] live idle
  show ?thesis by blast
qed

subsection \<open>Stopping\<close>

text \<open>
  C7. When \<^verbatim>\<open>stop\<close> returns, \<^verbatim>\<open>closeRTCPeer\<close> has been called on the publisher's peer,
  then \<^verbatim>\<open>close\<close> on the signaling object if there was one, and nothing else: the
  trace has grown by these calls, and the collaborator state is the one these calls
  produce from the state before. The field \<^verbatim>\<open>millicastSignaling\<close> is null and the other
  fields are as before.
\<close>

theorem stop_closes_both:
  assumes "stop env this w = (res, this', w')"
  shows "this' = this\<lparr>millicastSignaling := None\<rparr>
         \<and> millicastSignaling this' = None
         \<and> calls_between w w' =
             CloseRTCPeer (webRTCPeer this) #
               (case millicastSignaling this of None \<Rightarrow> [] | Some sg \<Rightarrow> [Close sg])
         \<and> collab w' =
             (case millicastSignaling this of
                None \<Rightarrow> closeRTCPeer env (webRTCPeer this) (collab w)
              | Some sg \<Rightarrow> close env sg (closeRTCPeer env (webRTCPeer this) (collab w)))"
  using assms
  by (auto simp: stop_def Let_def calls_between_def effect_def split: option.splits)

theorem stop_closes_both_witness:
  "stop stub_env live_publisher live_world =
     (Inr (), idle_publisher,
      live_world\<lparr>collab := None, trace := trace live_world @ [CloseRTCPeer 0, Close 1]\<rparr>)
   \<and> millicastSignaling idle_publisher = None
   \<and> calls_between live_world
        (live_world\<lparr>collab := None, trace := trace live_world @ [CloseRTCPeer 0, Close 1]\<rparr>) =
      [CloseRTCPeer 0, Close 1]
   \<and> collab (live_world\<lparr>collab := None, trace := trace live_world @ [CloseRTCPeer 0, Close 1]\<rparr>) =
      close stub_env 1 (closeRTCPeer stub_env 0 (collab live_world))"
proof -
  have run: "stop stub_env live_publisher live_world =
     (Inr (), idle_publisher,
      live_world\<lparr>collab := None, trace := trace live_world @ [CloseRTCPeer 0, Close 1]\<rparr>)"
    by (simp add: stop_def effect_def stub_env_def live_publisher_def idle_publisher_def)
  from stop_closes_both [OF run] run show ?thesis
    by (simp add: live_publisher_def)
qed

text \<open>
  C9. \<^verbatim>\<open>stop\<close> returns normally from every publisher state, also when
  \<^verbatim>\<open>millicastSignaling\<close> is null. A second \<^verbatim>\<open>stop\<close> right after the first returns
  normally too, leaves the publisher as the first one left it, with \<^verbatim>\<open>millicastSignaling\<close>
  null, and calls \<^verbatim>\<open>closeRTCPeer\<close> only.
\<close>

theorem stop_total_idempotent:
  "fst (stop env this w) = Inr () \<and>
   (case stop env this w of
      (res1, this1, w1) \<Rightarrow>
        (case stop env this1 w1 of
           (res2, this2, w2) \<Rightarrow>
              res2 = Inr () \<and> this2 = this1 \<and> millicastSignaling this2 = None \<and>
              calls_between w1 w2 = [CloseRTCPeer (webRTCPeer this)]))"
  by (simp add: stop_def Let_def calls_between_def split: option.splits)

subsection \<open>Construction\<close>



end
